theory Spec2Isabelle
  imports Main
begin

section \<open>The memory usage monitor of modules/memmon.py\<close>

text \<open>
  \<^verbatim>\<open>MemUsageMonitor\<close> is a thread object: the caller's methods (\<^verbatim>\<open>monitor\<close>,
  \<^verbatim>\<open>read\<close>, \<^verbatim>\<open>stop\<close>, \<^verbatim>\<open>dump_debug\<close>) and the thread's \<^verbatim>\<open>run\<close> loop share the
  fields of one object. The object is a record; each method is a function from the
  record to the updated record; \<^verbatim>\<open>run\<close> is a step function over a program counter,
  one step per statement group of the loop, so that the caller's methods can be
  interleaved with it. What the device reports is not part of the object: it is an
  argument of every step that queries the device.

  A call of the caller is one event: it runs to completion before the thread takes its
  next step, and one statement group of \<^verbatim>\<open>run\<close> is one event as well. In the
  constructor every probing call may raise. After construction the calls to the device
  are taken to return: one that raised would end the thread or reach the caller with the
  device's own error.
\<close>

subsection \<open>Errors\<close>

datatype error =
    Exception string
  | DeviceError string
  | NameError string
  | ZeroDivisionError
  | ValueError

subsection \<open>The aggregate map: \<^verbatim>\<open>defaultdict(int)\<close>\<close>

type_synonym aggregate = "string \<rightharpoonup> int"

text \<open>
  \<^verbatim>\<open>d[k]\<close> on a \<^verbatim>\<open>defaultdict(int)\<close>: the stored value, or, for a missing key, 0,
  which is also stored under the key.
\<close>

definition getitem :: "aggregate \<Rightarrow> string \<Rightarrow> int \<times> aggregate" where
  "getitem d k = (case d k of Some v \<Rightarrow> (v, d) | None \<Rightarrow> (0, d(k \<mapsto> 0)))"

text \<open>The value a caller sees under a key of the returned map.\<close>

definition peek :: "aggregate \<Rightarrow> string \<Rightarrow> int" where
  "peek d k = fst (getitem d k)"

subsection \<open>Device, options, and what the device reports\<close>

record torch_device =
  dev_type :: string
  dev_index :: "nat option"

record options =
  memmon_poll_rate :: int

text \<open>
  The environment of the constructor: whether the module-level \<^verbatim>\<open>hthpu\<close> was imported,
  what \<^verbatim>\<open>hthpu.is_available()\<close> returns or raises, and which of the probing calls raise.
\<close>

record backend =
  hthpu_imported :: bool
  hpu_is_available :: "error + bool"
  cuda_mem_get_info_raises :: "error option"
  cuda_memory_stats_raises :: "error option"
  hpu_memory_info_raises :: "error option"

text \<open>
  One snapshot of the device, as the calls of \<^verbatim>\<open>read\<close> see it:
  \<^verbatim>\<open>torch.cuda.mem_get_info(index)\<close> and the four entries of
  \<^verbatim>\<open>torch.cuda.memory_stats(device)\<close> that are used, and for the HPU
  \<^verbatim>\<open>hthpu.memory_info()\<close> (free, total, used), \<^verbatim>\<open>hthpu.memory_allocated()\<close>,
  \<^verbatim>\<open>hthpu.max_memory_allocated()\<close> and three entries of \<^verbatim>\<open>hthpu.memory_stats()\<close>.
\<close>

record device_now =
  cuda_mem_info :: "int \<times> int"
  cuda_active_all_current :: int
  cuda_active_bytes_all_peak :: int
  cuda_reserved_bytes_all_current :: int
  cuda_reserved_bytes_all_peak :: int
  hpu_free :: int
  hpu_total :: int
  hpu_used :: int
  hpu_memory_allocated :: int
  hpu_max_memory_allocated :: int
  hpu_Limit :: int
  hpu_NumAllocs :: int
  hpu_NumFrees :: int

subsection \<open>The monitor object\<close>

text \<open>Where the thread stands in \<^verbatim>\<open>run\<close>.\<close>

datatype loc =
    Start
  | Wait
  | Waiting
  | Woken
  | Reset
  | PollCheck
  | Baseline
  | LoopTest
  | Sample
  | Sleep
  | Returned
  | Died error

record mem_usage_monitor =
  name :: string
  device :: torch_device
  opts :: options
  daemon :: bool
  run_flag :: bool
  disabled :: bool
  data :: aggregate
  pc :: loc

definition is_cuda :: "mem_usage_monitor \<Rightarrow> bool" where
  "is_cuda m \<longleftrightarrow> dev_type (device m) = ''cuda''"

definition is_hpu :: "mem_usage_monitor \<Rightarrow> bool" where
  "is_hpu m \<longleftrightarrow> dev_type (device m) = ''hpu''"

subsection \<open>\<^verbatim>\<open>__init__\<close>\<close>

text \<open>
  The body of the \<^verbatim>\<open>try\<close> block. The condition
  \<^verbatim>\<open>self.device.type == 'hpu' and hthpu and hthpu.is_available()\<close> calls
  \<^verbatim>\<open>is_available\<close> only when the two tests before it hold; when it is false the
  \<^verbatim>\<open>else\<close> branch raises.
\<close>

definition probe :: "backend \<Rightarrow> torch_device \<Rightarrow> error + unit" where
  "probe b dev =
     (if dev_type dev = ''cuda'' then
        (case cuda_mem_get_info_raises b of
           Some e \<Rightarrow> Inl e
         | None \<Rightarrow>
             (case cuda_memory_stats_raises b of
                Some e \<Rightarrow> Inl e
              | None \<Rightarrow> Inr ()))
      else if dev_type dev = ''hpu'' \<and> hthpu_imported b then
        (case hpu_is_available b of
           Inl e \<Rightarrow> Inl e
         | Inr True \<Rightarrow>
             (case hpu_memory_info_raises b of
                Some e \<Rightarrow> Inl e
              | None \<Rightarrow> Inr ())
         | Inr False \<Rightarrow> Inl (Exception ''Unsupported device type''))
      else Inl (Exception ''Unsupported device type''))"

definition init :: "backend \<Rightarrow> string \<Rightarrow> torch_device \<Rightarrow> options \<Rightarrow> mem_usage_monitor" where
  "init b nm dev os =
     (let m = \<lparr>name = nm, device = dev, opts = os, daemon = True, run_flag = False,
               disabled = False, data = Map.empty, pc = Start\<rparr>
      in case probe b dev of
           Inl e \<Rightarrow> m\<lparr>disabled := True\<rparr>
         | Inr u \<Rightarrow> m)"

subsection \<open>\<^verbatim>\<open>cuda_mem_get_info\<close>, \<^verbatim>\<open>hpu_mem_get_info\<close>\<close>

definition cuda_mem_get_info :: "device_now \<Rightarrow> int \<times> int" where
  "cuda_mem_get_info a = cuda_mem_info a"

text \<open>The fields \<^verbatim>\<open>free\<close>, \<^verbatim>\<open>total\<close>, \<^verbatim>\<open>used\<close> of the object \<^verbatim>\<open>hthpu.memory_info()\<close> returns.\<close>

definition hpu_mem_get_info :: "device_now \<Rightarrow> int \<times> int \<times> int" where
  "hpu_mem_get_info a = (hpu_free a, hpu_total a, hpu_used a)"

subsection \<open>\<^verbatim>\<open>run\<close>\<close>

text \<open>
  The statements of \<^verbatim>\<open>run\<close> that do not query the device. \<^const>\<open>None\<close>: the thread
  cannot take such a step here (it waits on the closed gate, it has ended, or its next
  statement queries the device). An exception that leaves \<^verbatim>\<open>run\<close> ends the thread and
  reaches no caller: the thread is then at \<^term>\<open>Died e\<close>.
  \<^item> \<^term>\<open>Start\<close>: \<^verbatim>\<open>if self.disabled: return\<close>
  \<^item> \<^term>\<open>Wait\<close>: \<^verbatim>\<open>self.run_flag.wait()\<close> is entered: with the flag set it returns
    at once, otherwise the thread blocks (\<^term>\<open>Waiting\<close>)
  \<^item> \<^term>\<open>Waiting\<close>: the thread is blocked in \<^verbatim>\<open>wait()\<close> until a \<^verbatim>\<open>set()\<close> wakes it
  \<^item> \<^term>\<open>Woken\<close>: a \<^verbatim>\<open>set()\<close> has woken the thread; \<^verbatim>\<open>wait()\<close> returns without
    testing the flag again, also when a \<^verbatim>\<open>clear()\<close> came in between
  \<^item> \<^term>\<open>Reset\<close>: \<^verbatim>\<open>reset_peak_memory_stats()\<close> (on the device), \<^verbatim>\<open>self.data.clear()\<close>
  \<^item> \<^term>\<open>PollCheck\<close>: \<^verbatim>\<open>if self.opts.memmon_poll_rate <= 0: self.run_flag.clear(); continue\<close>
  \<^item> \<^term>\<open>Baseline\<close>: neither \<^verbatim>\<open>cuda\<close> nor \<^verbatim>\<open>hpu\<close>: nothing is stored
  \<^item> \<^term>\<open>LoopTest\<close>: \<^verbatim>\<open>while self.run_flag.is_set()\<close>
  \<^item> \<^term>\<open>Sample\<close>: neither \<^verbatim>\<open>cuda\<close> nor \<^verbatim>\<open>hpu\<close>: in
    \<^verbatim>\<open>min(self.data["min_free"], free)\<close> the map is read first, then \<^verbatim>\<open>free\<close> is unbound
  \<^item> \<^term>\<open>Sleep\<close>: \<^verbatim>\<open>time.sleep(1 / self.opts.memmon_poll_rate)\<close>
\<close>

definition run_tick :: "mem_usage_monitor \<Rightarrow> mem_usage_monitor option" where
  "run_tick m =
     (case pc m of
        Start \<Rightarrow> Some (m\<lparr>pc := (if disabled m then Returned else Wait)\<rparr>)
      | Wait \<Rightarrow> Some (m\<lparr>pc := (if run_flag m then Reset else Waiting)\<rparr>)
      | Waiting \<Rightarrow> None
      | Woken \<Rightarrow> Some (m\<lparr>pc := Reset\<rparr>)
      | Reset \<Rightarrow> Some (m\<lparr>data := Map.empty, pc := PollCheck\<rparr>)
      | PollCheck \<Rightarrow>
          (if memmon_poll_rate (opts m) \<le> 0
           then Some (m\<lparr>run_flag := False, pc := Wait\<rparr>)
           else Some (m\<lparr>pc := Baseline\<rparr>))
      | Baseline \<Rightarrow>
          (if is_cuda m \<or> is_hpu m then None else Some (m\<lparr>pc := LoopTest\<rparr>))
      | LoopTest \<Rightarrow> Some (m\<lparr>pc := (if run_flag m then Sample else Wait)\<rparr>)
      | Sample \<Rightarrow>
          (if is_cuda m \<or> is_hpu m then None
           else Some (m\<lparr>data := snd (getitem (data m) ''min_free''),
                       pc := Died (NameError ''free'')\<rparr>))
      | Sleep \<Rightarrow>
          (if memmon_poll_rate (opts m) = 0 then Some (m\<lparr>pc := Died ZeroDivisionError\<rparr>)
           else if memmon_poll_rate (opts m) < 0 then Some (m\<lparr>pc := Died ValueError\<rparr>)
           else Some (m\<lparr>pc := LoopTest\<rparr>))
      | Returned \<Rightarrow> None
      | Died e \<Rightarrow> None)"

text \<open>
  The two statements of \<^verbatim>\<open>run\<close> that query the device, given the free memory \<open>f\<close>
  the device reports:
  \<^item> \<^term>\<open>Baseline\<close>: \<^verbatim>\<open>self.data["min_free"] = <free>\<close>
  \<^item> \<^term>\<open>Sample\<close>: \<^verbatim>\<open>self.data["min_free"] = min(self.data["min_free"], free)\<close>
\<close>

definition run_query :: "int \<Rightarrow> mem_usage_monitor \<Rightarrow> mem_usage_monitor option" where
  "run_query f m =
     (case pc m of
        Baseline \<Rightarrow>
          (if is_cuda m \<or> is_hpu m
           then Some (m\<lparr>data := (data m)(''min_free'' \<mapsto> f), pc := LoopTest\<rparr>)
           else None)
      | Sample \<Rightarrow>
          (if is_cuda m \<or> is_hpu m
           then (case getitem (data m) ''min_free'' of
                   (mf, d) \<Rightarrow> Some (m\<lparr>data := d(''min_free'' \<mapsto> min mf f), pc := Sleep\<rparr>))
           else None)
      | _ \<Rightarrow> None)"

subsection \<open>\<^verbatim>\<open>monitor\<close>, \<^verbatim>\<open>read\<close>, \<^verbatim>\<open>stop\<close>, \<^verbatim>\<open>dump_debug\<close>\<close>

text \<open>
  \<^verbatim>\<open>self.run_flag.set()\<close>: \<^verbatim>\<open>Event.set\<close> sets the flag and wakes the thread when it
  is blocked in \<^verbatim>\<open>wait()\<close>.
\<close>

definition monitor :: "mem_usage_monitor \<Rightarrow> mem_usage_monitor" where
  "monitor m = m\<lparr>run_flag := True, pc := (if pc m = Waiting then Woken else pc m)\<rparr>"

text \<open>
  The last three assignments of \<^verbatim>\<open>read\<close>; the right-hand side
  \<^verbatim>\<open>total - self.data["min_free"]\<close> is evaluated before \<^verbatim>\<open>system_peak\<close> is stored.
\<close>

definition store_totals :: "int \<Rightarrow> int \<Rightarrow> aggregate \<Rightarrow> aggregate" where
  "store_totals fr tot d =
     (case getitem (d(''free'' \<mapsto> fr, ''total'' \<mapsto> tot)) ''min_free'' of
        (mf, d') \<Rightarrow> d'(''system_peak'' \<mapsto> tot - mf))"

text \<open>
  \<^verbatim>\<open>read\<close> returns \<^verbatim>\<open>self.data\<close>, the object's own map: the returned map is
  \<^const>\<open>data\<close> of the monitor returned here. With a device type that is neither
  \<^verbatim>\<open>cuda\<close> nor \<^verbatim>\<open>hpu\<close> and the monitor not disabled, \<^verbatim>\<open>free\<close> is unbound at
  \<^verbatim>\<open>self.data["free"] = free\<close>, before anything is stored.
\<close>

definition read :: "device_now \<Rightarrow> mem_usage_monitor \<Rightarrow> error + mem_usage_monitor" where
  "read a m =
     (if \<not> disabled m then
        (if is_cuda m then
           (case cuda_mem_get_info a of
              (fr, tot) \<Rightarrow>
                Inr (m\<lparr>data := store_totals fr tot
                       ((data m)(''active'' \<mapsto> cuda_active_all_current a,
                                 ''active_peak'' \<mapsto> cuda_active_bytes_all_peak a,
                                 ''reserved'' \<mapsto> cuda_reserved_bytes_all_current a,
                                 ''reserved_peak'' \<mapsto> cuda_reserved_bytes_all_peak a))\<rparr>))
         else if is_hpu m then
           (case hpu_mem_get_info a of
              (fr, tot, used) \<Rightarrow>
                Inr (m\<lparr>data := store_totals fr tot
                       ((data m)(''active'' \<mapsto> hpu_memory_allocated a,
                                 ''active_peak'' \<mapsto> hpu_max_memory_allocated a,
                                 ''reserved'' \<mapsto> used,
                                 ''reserved_peak'' \<mapsto> used,
                                 ''total_memory'' \<mapsto> hpu_Limit a,
                                 ''num_allocs'' \<mapsto> hpu_NumAllocs a,
                                 ''num_frees'' \<mapsto> hpu_NumFrees a))\<rparr>))
         else Inl (NameError ''free''))
      else Inr m)"

definition stop :: "device_now \<Rightarrow> mem_usage_monitor \<Rightarrow> error + mem_usage_monitor" where
  "stop a m = read a (m\<lparr>run_flag := False\<rparr>)"

text \<open>\<^verbatim>\<open>-(v // -(1024 ** 2))\<close>; \<open>div\<close> on \<^typ>\<open>int\<close> rounds down, as \<^verbatim>\<open>//\<close> does.\<close>

definition to_mib :: "int \<Rightarrow> int" where
  "to_mib v = - (v div - (1024 ^ 2))"

text \<open>
  \<^verbatim>\<open>dump_debug\<close> prints every item of \<^verbatim>\<open>self.read()\<close>; the result here is the monitor
  after that call and the printed figure of every key. The rest of what it prints for
  \<^verbatim>\<open>cuda\<close> comes from the device and touches no field of the object.
\<close>

definition dump_debug ::
  "device_now \<Rightarrow> mem_usage_monitor \<Rightarrow> error + (mem_usage_monitor \<times> (string \<rightharpoonup> int))" where
  "dump_debug a m =
     (case read a m of
        Inl e \<Rightarrow> Inl e
      | Inr m' \<Rightarrow> Inr (m', map_option to_mib \<circ> data m'))"

subsection \<open>Interleavings\<close>

text \<open>
  An event is one step of the thread or one completed call of the caller. A call that
  raises completes nothing, and an event that cannot happen in a state has no successor:
  both give \<^const>\<open>None\<close>.
\<close>

datatype event =
    Tick
  | Query int
  | CallMonitor
  | CallRead device_now
  | CallStop device_now
  | CallDump device_now

fun fire :: "event \<Rightarrow> mem_usage_monitor \<Rightarrow> mem_usage_monitor option" where
  "fire Tick m = run_tick m"
| "fire (Query f) m = run_query f m"
| "fire CallMonitor m = Some (monitor m)"
| "fire (CallRead a) m = (case read a m of Inl e \<Rightarrow> None | Inr m' \<Rightarrow> Some m')"
| "fire (CallStop a) m = (case stop a m of Inl e \<Rightarrow> None | Inr m' \<Rightarrow> Some m')"
| "fire (CallDump a) m = (case dump_debug a m of Inl e \<Rightarrow> None | Inr r \<Rightarrow> Some (fst r))"

fun exec :: "event list \<Rightarrow> mem_usage_monitor \<Rightarrow> mem_usage_monitor option" where
  "exec [] m = Some m"
| "exec (e # es) m = (case fire e m of None \<Rightarrow> None | Some m' \<Rightarrow> exec es m')"

text \<open>The free-memory samples the thread took along a sequence of events, in order.\<close>

fun samples :: "event list \<Rightarrow> int list" where
  "samples [] = []"
| "samples (Query f # es) = f # samples es"
| "samples (e # es) = samples es"

fun is_stop :: "event \<Rightarrow> bool" where
  "is_stop (CallStop a) = True"
| "is_stop e = False"

subsection \<open>The states of the specification\<close>

datatype mstate = Disabled | Idle | Sampling

definition state_of :: "mem_usage_monitor \<Rightarrow> mstate" where
  "state_of m = (if disabled m then Disabled else if run_flag m then Sampling else Idle)"

text \<open>
  The thread is parked at the gate: it has not started, or it is at \<^verbatim>\<open>wait()\<close> (about to
  enter it, blocked in it, or woken and about to leave it).
\<close>

definition parked :: "mem_usage_monitor \<Rightarrow> bool" where
  "parked m \<longleftrightarrow> pc m = Start \<or> pc m = Wait \<or> pc m = Waiting \<or> pc m = Woken"

text \<open>What the query of \<^verbatim>\<open>read\<close> reports as (free, total) to this monitor.\<close>

definition reported :: "mem_usage_monitor \<Rightarrow> device_now \<Rightarrow> int \<times> int" where
  "reported m a = (if is_cuda m then cuda_mem_get_info a else (hpu_free a, hpu_total a))"

subsection \<open>Invariants of the interleavings\<close>

text \<open>A disabled monitor: the thread never gets past its first test and the map stays empty.\<close>

definition dormant :: "mem_usage_monitor \<Rightarrow> bool" where
  "dormant m \<longleftrightarrow> disabled m \<and> data m = Map.empty \<and> (pc m = Start \<or> pc m = Returned)"

text \<open>No sample has been stored: \<^verbatim>\<open>min_free\<close> is missing or holds the default.\<close>

definition unsampled :: "mem_usage_monitor \<Rightarrow> bool" where
  "unsampled m \<longleftrightarrow> data m ''min_free'' = None \<or> data m ''min_free'' = Some 0"

text \<open>The thread is outside the part of \<^verbatim>\<open>run\<close> that queries the device.\<close>

definition before_loop :: "mem_usage_monitor \<Rightarrow> bool" where
  "before_loop m \<longleftrightarrow>
     pc m = Start \<or> pc m = Wait \<or> pc m = Waiting \<or> pc m = Woken \<or> pc m = Reset \<or>
     pc m = PollCheck \<or> pc m = Returned"

text \<open>
  An episode with a positive polling rate in which the thread has taken the samples
  \<open>acc\<close> so far.
\<close>

definition episode :: "mem_usage_monitor \<Rightarrow> int list \<Rightarrow> bool" where
  "episode m acc \<longleftrightarrow>
     run_flag m \<and> \<not> disabled m \<and> (is_cuda m \<or> is_hpu m) \<and> 0 < memmon_poll_rate (opts m) \<and>
     (if acc = []
      then pc m = Start \<or> pc m = Wait \<or> pc m = Woken \<or> pc m = Reset \<or> pc m = PollCheck \<or>
           pc m = Baseline
      else (pc m = LoopTest \<or> pc m = Sample \<or> pc m = Sleep) \<and>
           data m ''min_free'' = Some (Min (set acc)))"

subsection \<open>Concrete monitors and devices\<close>

definition working_backend :: backend where
  "working_backend =
     \<lparr>hthpu_imported = True, hpu_is_available = Inr True, cuda_mem_get_info_raises = None,
      cuda_memory_stats_raises = None, hpu_memory_info_raises = None\<rparr>"

definition snapshot :: "int \<Rightarrow> int \<Rightarrow> device_now" where
  "snapshot fr tot =
     \<lparr>cuda_mem_info = (fr, tot), cuda_active_all_current = 3,
      cuda_active_bytes_all_peak = 50, cuda_reserved_bytes_all_current = 60,
      cuda_reserved_bytes_all_peak = 70, hpu_free = fr, hpu_total = tot, hpu_used = tot - fr,
      hpu_memory_allocated = 40, hpu_max_memory_allocated = 50, hpu_Limit = tot,
      hpu_NumAllocs = 7, hpu_NumFrees = 2\<rparr>"

definition example_monitor :: "string \<Rightarrow> int \<Rightarrow> mem_usage_monitor" where
  "example_monitor ty r =
     init working_backend ''MemMon'' \<lparr>dev_type = ty, dev_index = None\<rparr> \<lparr>memmon_poll_rate = r\<rparr>"

section \<open>Properties\<close>

lemmas model_defs =
  example_monitor_def working_backend_def snapshot_def init_def probe_def
  run_tick_def run_query_def monitor_def read_def stop_def dump_debug_def
  is_cuda_def is_hpu_def store_totals_def getitem_def peek_def
  cuda_mem_get_info_def hpu_mem_get_info_def state_of_def parked_def reported_def

subsection \<open>The map\<close>

lemma peek_eq: "peek d k = (case d k of None \<Rightarrow> 0 | Some v \<Rightarrow> v)"
  by (simp add: peek_def getitem_def split: option.splits)

lemma peek_upd_other: "k' \<noteq> k \<Longrightarrow> peek (d(k \<mapsto> v)) k' = peek d k'"
  by (simp add: peek_eq)

lemma store_totals_min_free:
  "store_totals fr tot d ''min_free'' = Some (peek d ''min_free'')"
  by (simp add: store_totals_def getitem_def peek_eq split: option.splits)

lemma store_totals_system_peak:
  "store_totals fr tot d ''system_peak'' = Some (tot - peek d ''min_free'')"
  by (simp add: store_totals_def getitem_def peek_eq split: option.splits)

lemma store_totals_total:
  "store_totals fr tot d ''total'' = Some tot"
  by (simp add: store_totals_def getitem_def split: option.splits)

lemma store_totals_other:
  "k \<noteq> ''free'' \<Longrightarrow> k \<noteq> ''total'' \<Longrightarrow> k \<noteq> ''min_free'' \<Longrightarrow> k \<noteq> ''system_peak'' \<Longrightarrow>
   store_totals fr tot d k = d k"
  by (simp add: store_totals_def getitem_def split: option.splits)

lemma read_disabled: "disabled m \<Longrightarrow> read a m = Inr m"
  by (simp add: read_def)

lemma read_frame:
  "read a m = Inr m' \<Longrightarrow>
   name m' = name m \<and> device m' = device m \<and> opts m' = opts m \<and> daemon m' = daemon m \<and>
   run_flag m' = run_flag m \<and> disabled m' = disabled m \<and> pc m' = pc m"
  by (auto simp: read_def split: if_splits prod.splits)

lemma read_returns: "disabled m \<or> is_cuda m \<or> is_hpu m \<Longrightarrow> \<exists>m'. read a m = Inr m'"
  by (auto simp: read_def split: prod.splits)

lemma read_min_free:
  "read a m = Inr m' \<Longrightarrow> peek (data m') ''min_free'' = peek (data m) ''min_free''"
  by (auto simp: read_def peek_eq[of "store_totals _ _ _"] store_totals_min_free peek_upd_other
      split: if_splits prod.splits)

lemma read_min_free_present:
  "read a m = Inr m' \<Longrightarrow> data m ''min_free'' = Some v \<Longrightarrow> data m' ''min_free'' = Some v"
  by (auto simp: read_def store_totals_min_free peek_eq split: if_splits prod.splits)

lemma read_system_peak:
  "read a m = Inr m' \<Longrightarrow> \<not> disabled m \<Longrightarrow>
   peek (data m') ''system_peak'' = peek (data m') ''total'' - peek (data m') ''min_free''"
  by (auto simp: read_def peek_eq[of "store_totals _ _ _"] store_totals_min_free
      store_totals_system_peak store_totals_total peek_upd_other
      split: if_splits prod.splits)

lemma read_hpu_reserved:
  "\<not> disabled m \<Longrightarrow> is_hpu m \<Longrightarrow>
   \<exists>m'. read a m = Inr m' \<and> data m' ''reserved'' = Some (hpu_used a) \<and>
        data m' ''reserved_peak'' = Some (hpu_used a)"
  by (auto simp: read_def store_totals_other hpu_mem_get_info_def is_cuda_def is_hpu_def)

lemma store_totals_apply:
  "store_totals fr tot d k =
     (if k = ''system_peak'' then Some (tot - peek d ''min_free'')
      else if k = ''min_free'' then Some (peek d ''min_free'')
      else if k = ''total'' then Some tot
      else if k = ''free'' then Some fr
      else d k)"
  by (simp add: store_totals_def getitem_def peek_eq split: option.splits)

lemma store_totals_again_cuda:
  "store_totals fr tot ((store_totals fr tot (d(''active'' \<mapsto> a1, ''active_peak'' \<mapsto> a2,
       ''reserved'' \<mapsto> a3, ''reserved_peak'' \<mapsto> a4)))
     (''active'' \<mapsto> a1, ''active_peak'' \<mapsto> a2, ''reserved'' \<mapsto> a3, ''reserved_peak'' \<mapsto> a4))
   = store_totals fr tot (d(''active'' \<mapsto> a1, ''active_peak'' \<mapsto> a2,
       ''reserved'' \<mapsto> a3, ''reserved_peak'' \<mapsto> a4))"
  by (rule ext) (simp add: store_totals_apply peek_eq)

lemma store_totals_again_hpu:
  "store_totals fr tot ((store_totals fr tot (d(''active'' \<mapsto> a1, ''active_peak'' \<mapsto> a2,
       ''reserved'' \<mapsto> a3, ''reserved_peak'' \<mapsto> a4, ''total_memory'' \<mapsto> a5,
       ''num_allocs'' \<mapsto> a6, ''num_frees'' \<mapsto> a7)))
     (''active'' \<mapsto> a1, ''active_peak'' \<mapsto> a2, ''reserved'' \<mapsto> a3, ''reserved_peak'' \<mapsto> a4,
      ''total_memory'' \<mapsto> a5, ''num_allocs'' \<mapsto> a6, ''num_frees'' \<mapsto> a7))
   = store_totals fr tot (d(''active'' \<mapsto> a1, ''active_peak'' \<mapsto> a2,
       ''reserved'' \<mapsto> a3, ''reserved_peak'' \<mapsto> a4, ''total_memory'' \<mapsto> a5,
       ''num_allocs'' \<mapsto> a6, ''num_frees'' \<mapsto> a7))"
  by (rule ext) (simp add: store_totals_apply peek_eq)

lemma read_twice: "read a m = Inr m' \<Longrightarrow> read a m' = Inr m'"
  by (auto simp: read_def is_cuda_def is_hpu_def store_totals_again_cuda store_totals_again_hpu
      split: if_splits prod.splits)

subsection \<open>Frames of the events\<close>

lemma stop_eq: "stop a m = Inr m' \<Longrightarrow>
   device m' = device m \<and> opts m' = opts m \<and> run_flag m' = False \<and> disabled m' = disabled m \<and> pc m' = pc m"
  by (auto simp: stop_def dest!: read_frame)

lemma dump_debug_read: "dump_debug a m = Inr r \<Longrightarrow> read a m = Inr (fst r)"
  by (auto simp: dump_debug_def split: sum.splits)

lemma run_tick_frame:
  "run_tick m = Some m' \<Longrightarrow> device m' = device m \<and> opts m' = opts m \<and> disabled m' = disabled m"
  by (auto simp: run_tick_def split: loc.splits if_splits)

lemma run_query_frame:
  "run_query f m = Some m' \<Longrightarrow>
   device m' = device m \<and> opts m' = opts m \<and> disabled m' = disabled m \<and> run_flag m' = run_flag m"
  by (auto simp: run_query_def split: loc.splits if_splits prod.splits)

lemma fire_frame:
  "fire e m = Some m' \<Longrightarrow> device m' = device m \<and> opts m' = opts m \<and> disabled m' = disabled m"
  by (cases e)
    (auto simp: monitor_def dest: stop_eq read_frame dump_debug_read run_tick_frame run_query_frame
      split: sum.splits)

lemma exec_frame:
  "exec evs m = Some m' \<Longrightarrow> device m' = device m \<and> opts m' = opts m \<and> disabled m' = disabled m"
proof (induction evs arbitrary: m)
  case Nil
  then show ?case by simp
next
  case (Cons e evs)
  then obtain m1 where f: "fire e m = Some m1" and x: "exec evs m1 = Some m'"
    by (auto split: option.splits)
  from Cons.IH[OF x] fire_frame[OF f] show ?case by simp
qed

lemma exec_append:
  "exec (xs @ ys) m = (case exec xs m of None \<Rightarrow> None | Some m1 \<Rightarrow> exec ys m1)"
  by (induction xs arbitrary: m) (auto split: option.splits)

lemma samples_append: "samples (xs @ ys) = samples xs @ samples ys"
  by (induction xs rule: samples.induct) auto

lemma init_fields:
  "device (init b nm dev os) = dev \<and> opts (init b nm dev os) = os \<and>
   run_flag (init b nm dev os) = False \<and> data (init b nm dev os) = Map.empty \<and>
   pc (init b nm dev os) = Start \<and> disabled (init b nm dev os) = isl (probe b dev)"
  by (simp add: init_def Let_def split: sum.splits)

lemma probe_unsupported:
  "dev_type dev \<noteq> ''cuda'' \<Longrightarrow> dev_type dev \<noteq> ''hpu'' \<Longrightarrow> isl (probe b dev)"
  by (simp add: probe_def)

lemma probe_ok_supported:
  "\<not> isl (probe b dev) \<Longrightarrow> dev_type dev = ''cuda'' \<or> dev_type dev = ''hpu''"
  by (auto simp: probe_def split: if_splits)

subsection \<open>A disabled monitor stays dormant\<close>

lemma fire_dormant: "dormant m \<Longrightarrow> fire e m = Some m' \<Longrightarrow> dormant m'"
  by (cases e)
    (auto simp: dormant_def monitor_def stop_def read_def dump_debug_def run_tick_def run_query_def
      split: sum.splits)

lemma exec_dormant: "dormant m \<Longrightarrow> exec evs m = Some m' \<Longrightarrow> dormant m'"
proof (induction evs arbitrary: m)
  case Nil
  then show ?case by simp
next
  case (Cons e evs)
  then obtain m1 where f: "fire e m = Some m1" and x: "exec evs m1 = Some m'"
    by (auto split: option.splits)
  from fire_dormant[OF Cons.prems(1) f] Cons.IH x show ?case by blast
qed

lemma init_dormant: "isl (probe b dev) \<Longrightarrow> dormant (init b nm dev os)"
  by (simp add: dormant_def init_fields)

subsection \<open>Without a sample, \<^verbatim>\<open>min_free\<close> stays at its default\<close>

lemma read_unsampled: "unsampled m \<Longrightarrow> read a m = Inr m' \<Longrightarrow> unsampled m'"
  using read_min_free[of a m m'] read_min_free_present[of a m m' 0]
  by (auto simp: unsampled_def peek_eq split: option.splits)

lemma fire_unsampled:
  assumes "unsampled m" and "fire e m = Some m'" and "samples [e] = []"
  shows "unsampled m'"
proof (cases e)
  case Tick
  with assms show ?thesis
    by (auto simp: unsampled_def run_tick_def getitem_def split: loc.splits if_splits)
next
  case (Query f)
  with assms show ?thesis by simp
next
  case CallMonitor
  with assms show ?thesis by (auto simp: unsampled_def monitor_def)
next
  case (CallRead a)
  with assms show ?thesis by (auto split: sum.splits dest: read_unsampled)
next
  case (CallStop a)
  with assms read_unsampled[of "m\<lparr>run_flag := False\<rparr>" a m'] show ?thesis
    by (auto simp: stop_def unsampled_def split: sum.splits)
next
  case (CallDump a)
  with assms show ?thesis
    by (auto split: sum.splits dest!: dump_debug_read dest: read_unsampled)
qed

lemma samples_Cons_Nil: "samples (e # es) = [] \<Longrightarrow> samples [e] = [] \<and> samples es = []"
  by (cases e) auto

lemma exec_unsampled:
  "unsampled m \<Longrightarrow> exec evs m = Some m' \<Longrightarrow> samples evs = [] \<Longrightarrow> unsampled m'"
proof (induction evs arbitrary: m)
  case Nil
  then show ?case by simp
next
  case (Cons e evs)
  then obtain m1 where f: "fire e m = Some m1" and x: "exec evs m1 = Some m'"
    by (auto split: option.splits)
  from samples_Cons_Nil[OF Cons.prems(3)] have s1: "samples [e] = []" and s2: "samples evs = []"
    by simp_all
  from fire_unsampled[OF Cons.prems(1) f s1] Cons.IH x s2 show ?case by blast
qed

subsection \<open>A non-positive rate keeps the thread out of the loop\<close>

lemma dump_debug_frame:
  "dump_debug a m = Inr (m', out) \<Longrightarrow>
   device m' = device m \<and> opts m' = opts m \<and> run_flag m' = run_flag m \<and>
   disabled m' = disabled m \<and> pc m' = pc m"
  by (auto dest!: dump_debug_read dest: read_frame)

lemma fire_before_loop:
  "memmon_poll_rate (opts m) \<le> 0 \<Longrightarrow> before_loop m \<Longrightarrow> fire e m = Some m' \<Longrightarrow>
   before_loop m' \<and> samples [e] = []"
  by (cases e)
    (auto simp: before_loop_def monitor_def run_tick_def run_query_def
      dest: stop_eq read_frame dump_debug_frame split: sum.splits loc.splits if_splits)

lemma exec_before_loop:
  "memmon_poll_rate (opts m) \<le> 0 \<Longrightarrow> before_loop m \<Longrightarrow> exec evs m = Some m' \<Longrightarrow>
   before_loop m' \<and> samples evs = []"
proof (induction evs arbitrary: m)
  case Nil
  then show ?case by simp
next
  case (Cons e evs)
  then obtain m1 where f: "fire e m = Some m1" and x: "exec evs m1 = Some m'"
    by (auto split: option.splits)
  from fire_before_loop[OF Cons.prems(1,2) f]
  have b1: "before_loop m1" and s1: "samples [e] = []" by simp_all
  from fire_frame[OF f] Cons.prems(1) have r1: "memmon_poll_rate (opts m1) \<le> 0" by simp
  from Cons.IH[OF r1 b1 x] have "before_loop m'" and s2: "samples evs = []" by simp_all
  moreover from s1 s2 have "samples (e # evs) = []" by (cases e) auto
  ultimately show ?case by simp
qed

subsection \<open>With a positive rate only \<^verbatim>\<open>stop\<close> closes the gate\<close>

lemma fire_gate_open:
  "0 < memmon_poll_rate (opts m) \<Longrightarrow> run_flag m \<and> pc m \<noteq> Waiting \<Longrightarrow> fire e m = Some m' \<Longrightarrow>
   \<not> is_stop e \<Longrightarrow> run_flag m' \<and> pc m' \<noteq> Waiting"
  by (cases e)
    (auto simp: monitor_def run_tick_def run_query_def
      dest: read_frame dump_debug_frame split: sum.splits loc.splits if_splits prod.splits)

lemma exec_gate_open:
  "0 < memmon_poll_rate (opts m) \<Longrightarrow> run_flag m \<and> pc m \<noteq> Waiting \<Longrightarrow> exec evs m = Some m' \<Longrightarrow>
   \<forall>e\<in>set evs. \<not> is_stop e \<Longrightarrow> run_flag m' \<and> pc m' \<noteq> Waiting"
proof (induction evs arbitrary: m)
  case Nil
  then show ?case by simp
next
  case (Cons e evs)
  then obtain m1 where f: "fire e m = Some m1" and x: "exec evs m1 = Some m'"
    by (auto split: option.splits)
  from Cons.prems(4) have ne: "\<not> is_stop e" and nes: "\<forall>e\<in>set evs. \<not> is_stop e" by simp_all
  from fire_gate_open[OF Cons.prems(1,2) f ne] have g1: "run_flag m1 \<and> pc m1 \<noteq> Waiting" .
  from fire_frame[OF f] Cons.prems(1) have r1: "0 < memmon_poll_rate (opts m1)" by simp
  from Cons.IH[OF r1 g1 x nes] show ?case .
qed

lemma monitor_open: "run_flag m \<Longrightarrow> pc m \<noteq> Waiting \<Longrightarrow> monitor m = m"
  by (simp add: monitor_def)

subsection \<open>The minimum over an episode\<close>

lemma Min_snoc: "acc \<noteq> [] \<Longrightarrow> Min (set (acc @ [f])) = min (Min (set acc)) (f::int)"
  by (simp add: min.commute)

lemma read_episode: "episode m acc \<Longrightarrow> read a m = Inr m' \<Longrightarrow> episode m' acc"
  using read_frame[of a m m'] read_min_free_present[of a m m']
  by (auto simp: episode_def is_cuda_def is_hpu_def split: if_splits)

lemma tick_episode: "episode m acc \<Longrightarrow> run_tick m = Some m' \<Longrightarrow> episode m' acc"
  by (auto simp: episode_def run_tick_def is_cuda_def is_hpu_def split: loc.splits if_splits)

lemma query_episode: "episode m acc \<Longrightarrow> run_query f m = Some m' \<Longrightarrow> episode m' (acc @ [f])"
  by (auto simp: episode_def run_query_def is_cuda_def is_hpu_def getitem_def Min_snoc
      split: loc.splits if_splits)

lemma fire_episode:
  assumes "episode m acc" and "fire e m = Some m'" and "\<not> is_stop e"
  shows "episode m' (acc @ samples [e])"
proof (cases e)
  case Tick
  with assms show ?thesis by (auto dest: tick_episode)
next
  case (Query f)
  with assms show ?thesis by (auto dest: query_episode)
next
  case CallMonitor
  from assms(1) have "run_flag m" and "pc m \<noteq> Waiting"
    by (auto simp: episode_def split: if_splits)
  then have "monitor m = m" by (rule monitor_open)
  with CallMonitor assms show ?thesis by simp
next
  case (CallRead a)
  with assms show ?thesis by (auto split: sum.splits dest: read_episode)
next
  case (CallStop a)
  with assms show ?thesis by simp
next
  case (CallDump a)
  with assms show ?thesis
    by (auto split: sum.splits dest!: dump_debug_read dest: read_episode)
qed

lemma samples_Cons: "samples (e # es) = samples [e] @ samples es"
  by (cases e) auto

lemma exec_episode:
  "episode m acc \<Longrightarrow> exec evs m = Some m' \<Longrightarrow> \<forall>e\<in>set evs. \<not> is_stop e \<Longrightarrow>
   episode m' (acc @ samples evs)"
proof (induction evs arbitrary: m acc)
  case Nil
  then show ?case by simp
next
  case (Cons e evs)
  then obtain m1 where f: "fire e m = Some m1" and x: "exec evs m1 = Some m'"
    by (auto split: option.splits)
  from Cons.prems(3) have ne: "\<not> is_stop e" and nes: "\<forall>e\<in>set evs. \<not> is_stop e" by simp_all
  from fire_episode[OF Cons.prems(1) f ne] have "episode m1 (acc @ samples [e])" .
  from Cons.IH[OF this x nes] show ?case by (simp add: samples_Cons[of e evs])
qed

lemma episode_start:
  "state_of m0 = Idle \<Longrightarrow> parked m0 \<Longrightarrow> is_cuda m0 \<or> is_hpu m0 \<Longrightarrow>
   0 < memmon_poll_rate (opts m0) \<Longrightarrow> episode (monitor m0) []"
  by (auto simp: episode_def state_of_def parked_def monitor_def is_cuda_def is_hpu_def
      split: if_splits)

lemma read_stores:
  "\<not> disabled m \<Longrightarrow> read a m = Inr m' \<Longrightarrow>
   data m' ''free'' = Some (fst (reported m a)) \<and>
   data m' ''total'' = Some (snd (reported m a)) \<and>
   data m' ''min_free'' = Some (peek (data m) ''min_free'') \<and>
   data m' ''system_peak'' = Some (snd (reported m a) - peek (data m) ''min_free'')"
  by (auto simp: read_def reported_def store_totals_apply peek_eq hpu_mem_get_info_def
      split: if_splits prod.splits)

lemma init_supported:
  "\<not> disabled (init b nm dev os) \<Longrightarrow> is_cuda (init b nm dev os) \<or> is_hpu (init b nm dev os)"
  using probe_ok_supported[of b dev] by (simp add: init_fields is_cuda_def is_hpu_def)

lemma init_before_loop: "before_loop (init b nm dev os)"
  by (simp add: before_loop_def init_fields)

lemma init_unsampled: "unsampled (init b nm dev os)"
  by (simp add: unsampled_def init_fields)

section \<open>The claims\<close>

text \<open>
  C1 (amended). For every monitor constructed not disabled with a polling rate \<open>\<le> 0\<close>,
  in every interleaving of \<^verbatim>\<open>monitor(); stop()\<close> with the thread (and after any earlier
  calls) the thread takes no free-memory sample at all: it clears the map and closes the
  gate again. After \<^verbatim>\<open>stop()\<close> the map holds \<^verbatim>\<open>min_free = 0\<close>, the default, so that
  \<^verbatim>\<open>system_peak\<close> equals \<^verbatim>\<open>total\<close>.
\<close>

theorem monitor_stop_nonpositive_rate:
  assumes "\<not> disabled (init b nm dev os)" and "memmon_poll_rate os \<le> 0"
    and "exec (pre @ CallMonitor # ws @ [CallStop a]) (init b nm dev os) = Some m'"
  shows "samples (pre @ CallMonitor # ws @ [CallStop a]) = [] \<and>
         data m' ''min_free'' = Some 0 \<and>
         data m' ''system_peak'' = data m' ''total''"
proof -
  let ?m0 = "init b nm dev os"
  let ?evs = "pre @ CallMonitor # ws"
  from assms(3) exec_append[of ?evs "[CallStop a]" ?m0]
  have "(case exec ?evs ?m0 of None \<Rightarrow> None | Some m1 \<Rightarrow> exec [CallStop a] m1) = Some m'"
    by simp
  then obtain m1 where x1: "exec ?evs ?m0 = Some m1" and s: "stop a m1 = Inr m'"
    by (auto split: option.splits sum.splits)
  from assms(2) have r0: "memmon_poll_rate (opts ?m0) \<le> 0" by (simp add: init_fields)
  from exec_before_loop[OF r0 init_before_loop x1] have ns: "samples ?evs = []" by simp
  from exec_unsampled[OF init_unsampled x1 ns] have u1: "unsampled m1" .
  from exec_frame[OF x1] assms(1) have nd: "\<not> disabled m1" by simp
  let ?m2 = "m1\<lparr>run_flag := False\<rparr>"
  from s have r: "read a ?m2 = Inr m'" by (simp add: stop_def)
  from nd have nd2: "\<not> disabled ?m2" by simp
  from u1 have p: "peek (data ?m2) ''min_free'' = 0"
    by (auto simp: unsampled_def peek_eq)
  from read_stores[OF nd2 r] p
  have "data m' ''min_free'' = Some 0 \<and> data m' ''system_peak'' = data m' ''total''"
    by simp
  moreover from ns have "samples (pre @ CallMonitor # ws @ [CallStop a]) = []"
    using samples_append[of ?evs "[CallStop a]"] by simp
  ultimately show ?thesis by simp
qed

text \<open>The theorem at an HPU monitor with rate 0 whose thread runs one cycle before \<^verbatim>\<open>stop()\<close>.\<close>

theorem monitor_stop_nonpositive_rate_witness:
  "exec ([] @ CallMonitor # [Tick, Tick, Tick, Tick] @ [CallStop (snapshot 900 1000)])
     (example_monitor ''hpu'' 0) \<noteq> None \<and>
   samples ([] @ CallMonitor # [Tick, Tick, Tick, Tick] @ [CallStop (snapshot 900 1000)]) = [] \<and>
   data (the (exec ([] @ CallMonitor # [Tick, Tick, Tick, Tick] @ [CallStop (snapshot 900 1000)])
     (example_monitor ''hpu'' 0))) ''min_free'' = Some 0 \<and>
   data (the (exec ([] @ CallMonitor # [Tick, Tick, Tick, Tick] @ [CallStop (snapshot 900 1000)])
     (example_monitor ''hpu'' 0))) ''system_peak'' = Some 1000"
proof -
  let ?tr = "[] @ CallMonitor # [Tick, Tick, Tick, Tick] @ [CallStop (snapshot 900 1000)]"
  have nd: "\<not> disabled (init working_backend ''MemMon'' \<lparr>dev_type = ''hpu'', dev_index = None\<rparr>
      \<lparr>memmon_poll_rate = 0\<rparr>)"
    by (simp add: model_defs)
  have r: "memmon_poll_rate \<lparr>memmon_poll_rate = 0\<rparr> \<le> 0" by simp
  obtain m' where x: "exec ?tr (init working_backend ''MemMon''
      \<lparr>dev_type = ''hpu'', dev_index = None\<rparr> \<lparr>memmon_poll_rate = 0\<rparr>) = Some m'"
    by (simp add: model_defs)
  have t: "data m' ''total'' = Some 1000"
    using x by (auto simp: model_defs)
  from monitor_stop_nonpositive_rate[OF nd r x] x t show ?thesis
    by (simp add: example_monitor_def)
qed

text \<open>
  C1 as stated fails: with rate 0 and a device that reports 900 free bytes, the sequence
  runs without a single sample, \<^verbatim>\<open>min_free\<close> is not 900 afterwards, and the thread
  cannot take the baseline query at the place where it would be due.
\<close>

theorem monitor_stop_nonpositive_rate_counterexample:
  "exec [CallMonitor, Tick, Tick, Tick, Tick, CallStop (snapshot 900 1000)]
     (example_monitor ''hpu'' 0) \<noteq> None \<and>
   length (samples [CallMonitor, Tick, Tick, Tick, Tick, CallStop (snapshot 900 1000)]) \<noteq> 1 \<and>
   fst (reported (example_monitor ''hpu'' 0) (snapshot 900 1000)) = 900 \<and>
   peek (data (the (exec [CallMonitor, Tick, Tick, Tick, Tick, CallStop (snapshot 900 1000)]
     (example_monitor ''hpu'' 0)))) ''min_free'' \<noteq> 900 \<and>
   exec [CallMonitor, Tick, Tick, Tick, Tick, Query 900] (example_monitor ''hpu'' 0) = None \<and>
   exec [CallMonitor, Tick, Tick, Tick, Query 900] (example_monitor ''hpu'' 0) = None"
  by (simp add: model_defs)

text \<open>
  C2 (amended). For every monitor in the Idle state (not disabled, gate closed), on a
  \<^verbatim>\<open>cuda\<close> or \<^verbatim>\<open>hpu\<close> device, \<^verbatim>\<open>stop()\<close> returns what \<^verbatim>\<open>read()\<close> returns: the
  monitor stays Idle, the thread stays where it is and \<^verbatim>\<open>min_free\<close> keeps its value, but
  the map is refreshed with the figures the device reports now (\<^verbatim>\<open>free\<close>, \<^verbatim>\<open>total\<close>
  and the rest). Only a further \<^verbatim>\<open>stop()\<close> under the same device figures changes nothing.
\<close>

theorem stop_while_idle:
  assumes "state_of m = Idle" and "is_cuda m \<or> is_hpu m"
  shows "\<exists>m'. stop a m = Inr m' \<and> read a m = Inr m' \<and> state_of m' = Idle \<and> pc m' = pc m \<and>
           peek (data m') ''min_free'' = peek (data m) ''min_free'' \<and>
           data m' ''free'' = Some (fst (reported m a)) \<and>
           data m' ''total'' = Some (snd (reported m a)) \<and>
           stop a m' = Inr m'"
proof -
  from assms(1) have nd: "\<not> disabled m" and nf: "\<not> run_flag m"
    by (auto simp: state_of_def split: if_splits)
  from nf have same: "m\<lparr>run_flag := False\<rparr> = m" by simp
  from assms(2) read_returns[of m a] obtain m' where r: "read a m = Inr m'" by blast
  from same r have s: "stop a m = Inr m'" by (simp add: stop_def)
  from read_frame[OF r] nd nf have st: "state_of m' = Idle" and p: "pc m' = pc m"
    and nf': "\<not> run_flag m'"
    by (simp_all add: state_of_def)
  from nf' have "m'\<lparr>run_flag := False\<rparr> = m'" by simp
  with read_twice[OF r] have s2: "stop a m' = Inr m'" by (simp add: stop_def)
  from read_stores[OF nd r] read_min_free[OF r] s r st p s2 show ?thesis by simp
qed

text \<open>The theorem at a freshly constructed \<^verbatim>\<open>cuda\<close> monitor.\<close>

theorem stop_while_idle_witness:
  "state_of (example_monitor ''cuda'' 8) = Idle \<and>
   stop (snapshot 900 1000) (example_monitor ''cuda'' 8) =
     read (snapshot 900 1000) (example_monitor ''cuda'' 8) \<and>
   isl (stop (snapshot 900 1000) (example_monitor ''cuda'' 8)) = False \<and>
   state_of (projr (stop (snapshot 900 1000) (example_monitor ''cuda'' 8))) = Idle \<and>
   data (projr (stop (snapshot 900 1000) (example_monitor ''cuda'' 8))) ''free'' = Some 900"
proof -
  have i: "state_of (example_monitor ''cuda'' 8) = Idle" by (simp add: model_defs)
  have c: "is_cuda (example_monitor ''cuda'' 8) \<or> is_hpu (example_monitor ''cuda'' 8)"
    by (simp add: model_defs)
  have f: "fst (reported (example_monitor ''cuda'' 8) (snapshot 900 1000)) = 900"
    by (simp add: model_defs)
  from stop_while_idle[OF i c, of "snapshot 900 1000"] i f show ?thesis by auto
qed

text \<open>
  C2 as stated fails: a freshly constructed monitor is Idle with an empty map, and
  \<^verbatim>\<open>stop()\<close> stores \<^verbatim>\<open>total = 1000\<close> in it.
\<close>

theorem stop_while_idle_counterexample:
  "state_of (example_monitor ''cuda'' 8) = Idle \<and> parked (example_monitor ''cuda'' 8) \<and>
   isl (stop (snapshot 900 1000) (example_monitor ''cuda'' 8)) = False \<and>
   data (example_monitor ''cuda'' 8) ''total'' = None \<and>
   data (projr (stop (snapshot 900 1000) (example_monitor ''cuda'' 8))) ''total'' = Some 1000 \<and>
   data (projr (stop (snapshot 900 1000) (example_monitor ''cuda'' 8))) \<noteq>
     data (example_monitor ''cuda'' 8)"
proof -
  have a: "state_of (example_monitor ''cuda'' 8) = Idle \<and> parked (example_monitor ''cuda'' 8) \<and>
   isl (stop (snapshot 900 1000) (example_monitor ''cuda'' 8)) = False \<and>
   data (example_monitor ''cuda'' 8) ''total'' = None \<and>
   data (projr (stop (snapshot 900 1000) (example_monitor ''cuda'' 8))) ''total'' = Some 1000"
    by (simp add: model_defs)
  then have "data (projr (stop (snapshot 900 1000) (example_monitor ''cuda'' 8))) ''total'' \<noteq>
     data (example_monitor ''cuda'' 8) ''total''" by simp
  then have "data (projr (stop (snapshot 900 1000) (example_monitor ''cuda'' 8))) \<noteq>
     data (example_monitor ''cuda'' 8)" by metis
  with a show ?thesis by simp
qed

text \<open>
  C3 (amended). A monitor is Idle and its thread is parked at the gate (it has seen the
  last \<^verbatim>\<open>stop()\<close>, or has not run yet), on a \<^verbatim>\<open>cuda\<close> or \<^verbatim>\<open>hpu\<close> device, with a
  positive polling rate. After \<^verbatim>\<open>monitor()\<close> and any interleaving of thread steps and
  calls other than \<^verbatim>\<open>stop()\<close> in which the thread took the samples
  \<open>f\<^sub>1, \<dots>, f\<^sub>N\<close> with \<open>N \<ge> 1\<close> (the baseline is \<open>f\<^sub>1\<close>), the map holds their
  minimum under \<^verbatim>\<open>min_free\<close>; as the episode goes on, \<^verbatim>\<open>min_free\<close> is the minimum of
  all samples so far and never goes up.
\<close>

theorem min_free_is_minimum_of_samples:
  assumes "state_of m0 = Idle" and "parked m0" and "is_cuda m0 \<or> is_hpu m0"
    and "0 < memmon_poll_rate (opts m0)"
    and "exec evs (monitor m0) = Some m" and "\<forall>e\<in>set evs. \<not> is_stop e"
    and "samples evs \<noteq> []"
    and "exec later m = Some m2" and "\<forall>e\<in>set later. \<not> is_stop e"
  shows "data m ''min_free'' = Some (Min (set (samples evs))) \<and>
         data m2 ''min_free'' = Some (Min (set (samples evs @ samples later))) \<and>
         peek (data m2) ''min_free'' \<le> peek (data m) ''min_free''"
proof -
  from episode_start[OF assms(1-4)] have e0: "episode (monitor m0) []" .
  from exec_episode[OF e0 assms(5,6)] assms(7)
  have mf: "data m ''min_free'' = Some (Min (set (samples evs)))"
    by (simp add: episode_def)
  from assms(5,8) have x2: "exec (evs @ later) (monitor m0) = Some m2"
    by (simp add: exec_append)
  from assms(6,9) have ns2: "\<forall>e\<in>set (evs @ later). \<not> is_stop e" by auto
  from assms(7) have ne2: "samples (evs @ later) \<noteq> []" by (simp add: samples_append)
  from exec_episode[OF e0 x2 ns2] ne2
  have mf2: "data m2 ''min_free'' = Some (Min (set (samples evs @ samples later)))"
    by (simp add: episode_def samples_append)
  have "Min (set (samples evs @ samples later)) \<le> Min (set (samples evs))"
    using assms(7) by (intro Min_antimono) auto
  with mf mf2 show ?thesis by (simp add: peek_eq)
qed

text \<open>The theorem at an HPU monitor: samples 800 and 600, a read in between, then 900.\<close>

theorem min_free_is_minimum_of_samples_witness:
  "exec [Tick, Tick, Tick, Tick, Query 800, CallRead (snapshot 800 1000), Tick, Query 600]
     (monitor (example_monitor ''hpu'' 8)) \<noteq> None \<and>
   data (the (exec [Tick, Tick, Tick, Tick, Query 800, CallRead (snapshot 800 1000), Tick, Query 600]
     (monitor (example_monitor ''hpu'' 8)))) ''min_free'' = Some 600 \<and>
   exec [Tick, Tick, Query 900, CallRead (snapshot 900 1000)]
     (the (exec [Tick, Tick, Tick, Tick, Query 800, CallRead (snapshot 800 1000), Tick, Query 600]
       (monitor (example_monitor ''hpu'' 8)))) \<noteq> None \<and>
   data (the (exec [Tick, Tick, Query 900, CallRead (snapshot 900 1000)]
     (the (exec [Tick, Tick, Tick, Tick, Query 800, CallRead (snapshot 800 1000), Tick, Query 600]
       (monitor (example_monitor ''hpu'' 8)))))) ''min_free'' = Some 600"
proof -
  let ?m0 = "example_monitor ''hpu'' 8"
  let ?evs = "[Tick, Tick, Tick, Tick, Query 800, CallRead (snapshot 800 1000), Tick, Query 600]"
  let ?later = "[Tick, Tick, Query 900, CallRead (snapshot 900 1000)]"
  have h1: "state_of ?m0 = Idle" and h2: "parked ?m0" and h3: "is_cuda ?m0 \<or> is_hpu ?m0"
    and h4: "0 < memmon_poll_rate (opts ?m0)"
    by (simp_all add: model_defs)
  have "exec ?evs (monitor ?m0) \<noteq> None" by (simp add: model_defs)
  then obtain m where x: "exec ?evs (monitor ?m0) = Some m" by blast
  have h6: "\<forall>e\<in>set ?evs. \<not> is_stop e" and h7: "samples ?evs \<noteq> []"
    and h9: "\<forall>e\<in>set ?later. \<not> is_stop e"
    by simp_all
  have "exec ?later (the (exec ?evs (monitor ?m0))) \<noteq> None" by (simp add: model_defs)
  with x obtain m2 where x2: "exec ?later m = Some m2" by auto
  from min_free_is_minimum_of_samples[OF h1 h2 h3 h4 x h6 h7 x2 h9] x x2
  show ?thesis by simp
qed

text \<open>
  C3 as stated fails when \<^verbatim>\<open>monitor()\<close> comes before the thread has seen the
  \<^verbatim>\<open>stop()\<close> before it: \<^verbatim>\<open>stop()\<close> falls into the thread's sleep after the samples
  500 and 500, the monitor is Idle, and the next \<^verbatim>\<open>monitor()\<close> opens the gate before the
  thread tests it. The thread goes on with the old loop, the map is not cleared, and
  after the one sample 900 of the new episode \<^verbatim>\<open>min_free\<close> is still 500.
\<close>

theorem min_free_is_minimum_of_samples_counterexample:
  "exec [CallMonitor, Tick, Tick, Tick, Tick, Query 500, Tick, Query 500,
         CallStop (snapshot 500 1000)] (example_monitor ''hpu'' 8) \<noteq> None \<and>
   state_of (the (exec [CallMonitor, Tick, Tick, Tick, Tick, Query 500, Tick, Query 500,
         CallStop (snapshot 500 1000)] (example_monitor ''hpu'' 8))) = Idle \<and>
   pc (the (exec [CallMonitor, Tick, Tick, Tick, Tick, Query 500, Tick, Query 500,
         CallStop (snapshot 500 1000)] (example_monitor ''hpu'' 8))) = Sleep \<and>
   exec [Tick, Tick, Query 900, CallRead (snapshot 900 1000)]
     (monitor (the (exec [CallMonitor, Tick, Tick, Tick, Tick, Query 500, Tick, Query 500,
         CallStop (snapshot 500 1000)] (example_monitor ''hpu'' 8)))) \<noteq> None \<and>
   samples [Tick, Tick, Query 900, CallRead (snapshot 900 1000)] = [900] \<and>
   data (the (exec [Tick, Tick, Query 900, CallRead (snapshot 900 1000)]
     (monitor (the (exec [CallMonitor, Tick, Tick, Tick, Tick, Query 500, Tick, Query 500,
         CallStop (snapshot 500 1000)] (example_monitor ''hpu'' 8)))))) ''min_free'' = Some 500 \<and>
   Min (set (samples [Tick, Tick, Query 900, CallRead (snapshot 900 1000)])) = 900"
  by (simp add: model_defs)

text \<open>
  C4. In every state a constructed monitor can reach, a \<^verbatim>\<open>read()\<close> that returns leaves
  the map with \<^verbatim>\<open>system_peak = total - min_free\<close>. In particular, when \<^verbatim>\<open>monitor()\<close>
  follows construction with a positive rate, the thread takes the samples 800, 600, 900
  and the device then reports 900 free of 1000, the read gives \<^verbatim>\<open>min_free = 600\<close>,
  \<^verbatim>\<open>free = 900\<close>, \<^verbatim>\<open>total = 1000\<close>, \<^verbatim>\<open>system_peak = 400\<close>.
\<close>

theorem system_peak_after_read:
  assumes "exec evs (init b nm dev os) = Some m" and "read a m = Inr m'"
  shows "peek (data m') ''system_peak'' = peek (data m') ''total'' - peek (data m') ''min_free'' \<and>
         (\<not> disabled m \<and> 0 < memmon_poll_rate os \<and> evs = CallMonitor # ep \<and>
          (\<forall>e\<in>set ep. \<not> is_stop e) \<and> samples ep = [800, 600, 900] \<and>
          reported m a = (900, 1000) \<longrightarrow>
            data m' ''min_free'' = Some 600 \<and> data m' ''free'' = Some 900 \<and>
            data m' ''total'' = Some 1000 \<and> data m' ''system_peak'' = Some 400)"
proof -
  let ?m0 = "init b nm dev os"
  have general:
    "peek (data m') ''system_peak'' = peek (data m') ''total'' - peek (data m') ''min_free''"
  proof (cases "disabled m")
    case False
    from read_system_peak[OF assms(2) False] show ?thesis .
  next
    case True
    with exec_frame[OF assms(1)] have "isl (probe b dev)" by (simp add: init_fields)
    from exec_dormant[OF init_dormant[OF this] assms(1)] have "data m = Map.empty"
      by (simp add: dormant_def)
    moreover from True assms(2) have "m' = m" by (simp add: read_def)
    ultimately show ?thesis by (simp add: peek_eq)
  qed
  have scenario: "data m' ''min_free'' = Some 600 \<and> data m' ''free'' = Some 900 \<and>
      data m' ''total'' = Some 1000 \<and> data m' ''system_peak'' = Some 400"
    if nd: "\<not> disabled m" and rate: "0 < memmon_poll_rate os" and ev: "evs = CallMonitor # ep"
      and ns: "\<forall>e\<in>set ep. \<not> is_stop e" and sm: "samples ep = [800, 600, 900]"
      and rep: "reported m a = (900, 1000)"
  proof -
    from nd exec_frame[OF assms(1)] have nd0: "\<not> disabled ?m0" by simp
    then have i1: "state_of ?m0 = Idle" by (simp add: state_of_def init_fields)
    have i2: "parked ?m0" by (simp add: parked_def init_fields)
    from rate have i4: "0 < memmon_poll_rate (opts ?m0)" by (simp add: init_fields)
    from episode_start[OF i1 i2 init_supported[OF nd0] i4] have e0: "episode (monitor ?m0) []" .
    from assms(1) ev have x: "exec ep (monitor ?m0) = Some m" by simp
    from exec_episode[OF e0 x ns] sm have "data m ''min_free'' = Some 600"
      by (simp add: episode_def)
    then have "peek (data m) ''min_free'' = 600" by (simp add: peek_eq)
    with read_stores[OF nd assms(2)] rep show ?thesis by simp
  qed
  from general scenario show ?thesis by blast
qed

text \<open>The theorem at an HPU monitor running exactly that scenario.\<close>

theorem system_peak_after_read_witness:
  "exec (CallMonitor # [Tick, Tick, Tick, Tick, Query 800, Tick, Query 600, Tick, Tick, Query 900])
     (example_monitor ''hpu'' 8) \<noteq> None \<and>
   isl (read (snapshot 900 1000) (the (exec (CallMonitor #
     [Tick, Tick, Tick, Tick, Query 800, Tick, Query 600, Tick, Tick, Query 900])
     (example_monitor ''hpu'' 8)))) = False \<and>
   data (projr (read (snapshot 900 1000) (the (exec (CallMonitor #
     [Tick, Tick, Tick, Tick, Query 800, Tick, Query 600, Tick, Tick, Query 900])
     (example_monitor ''hpu'' 8))))) ''min_free'' = Some 600 \<and>
   data (projr (read (snapshot 900 1000) (the (exec (CallMonitor #
     [Tick, Tick, Tick, Tick, Query 800, Tick, Query 600, Tick, Tick, Query 900])
     (example_monitor ''hpu'' 8))))) ''free'' = Some 900 \<and>
   data (projr (read (snapshot 900 1000) (the (exec (CallMonitor #
     [Tick, Tick, Tick, Tick, Query 800, Tick, Query 600, Tick, Tick, Query 900])
     (example_monitor ''hpu'' 8))))) ''total'' = Some 1000 \<and>
   data (projr (read (snapshot 900 1000) (the (exec (CallMonitor #
     [Tick, Tick, Tick, Tick, Query 800, Tick, Query 600, Tick, Tick, Query 900])
     (example_monitor ''hpu'' 8))))) ''system_peak'' = Some 400 \<and>
   peek (data (projr (read (snapshot 900 1000) (the (exec (CallMonitor #
     [Tick, Tick, Tick, Tick, Query 800, Tick, Query 600, Tick, Tick, Query 900])
     (example_monitor ''hpu'' 8)))))) ''system_peak'' =
   peek (data (projr (read (snapshot 900 1000) (the (exec (CallMonitor #
     [Tick, Tick, Tick, Tick, Query 800, Tick, Query 600, Tick, Tick, Query 900])
     (example_monitor ''hpu'' 8)))))) ''total'' -
   peek (data (projr (read (snapshot 900 1000) (the (exec (CallMonitor #
     [Tick, Tick, Tick, Tick, Query 800, Tick, Query 600, Tick, Tick, Query 900])
     (example_monitor ''hpu'' 8)))))) ''min_free''"
proof -
  let ?ep = "[Tick, Tick, Tick, Tick, Query 800, Tick, Query 600, Tick, Tick, Query 900]"
  let ?dev = "\<lparr>dev_type = ''hpu'', dev_index = None\<rparr>"
  let ?os = "\<lparr>memmon_poll_rate = 8\<rparr>"
  have em: "example_monitor ''hpu'' 8 = init working_backend ''MemMon'' ?dev ?os"
    by (simp add: example_monitor_def)
  have "exec (CallMonitor # ?ep) (init working_backend ''MemMon'' ?dev ?os) \<noteq> None"
    by (simp add: model_defs)
  then obtain m where x: "exec (CallMonitor # ?ep) (init working_backend ''MemMon'' ?dev ?os) = Some m"
    by blast
  from exec_frame[OF x] have nd: "\<not> disabled m" and hp: "is_hpu m"
    by (simp_all add: model_defs)
  then have rep: "reported m (snapshot 900 1000) = (900, 1000)"
    by (simp add: reported_def is_cuda_def is_hpu_def snapshot_def)
  from hp read_returns[of m "snapshot 900 1000"]
  obtain m' where r: "read (snapshot 900 1000) m = Inr m'" by blast
  have side: "\<not> disabled m \<and> 0 < memmon_poll_rate ?os \<and> CallMonitor # ?ep = CallMonitor # ?ep \<and>
      (\<forall>e\<in>set ?ep. \<not> is_stop e) \<and> samples ?ep = [800, 600, 900] \<and>
      reported m (snapshot 900 1000) = (900, 1000)"
    using nd rep by simp
  from system_peak_after_read[OF x r, of ?ep] side x r em show ?thesis by simp
qed

text \<open>
  C5. When the device type is neither \<^verbatim>\<open>cuda\<close> nor \<^verbatim>\<open>hpu\<close>, or the probe in the
  constructor raises, the constructor still returns a monitor; it is disabled and its map
  is empty. Whatever happens afterwards, it stays disabled with an empty map, and
  \<^verbatim>\<open>read()\<close> returns the monitor as it is.
\<close>

theorem unsupported_device_disables:
  assumes "(dev_type dev \<noteq> ''cuda'' \<and> dev_type dev \<noteq> ''hpu'') \<or> isl (probe b dev)"
    and "exec evs (init b nm dev os) = Some m"
  shows "disabled (init b nm dev os) \<and> data (init b nm dev os) = Map.empty \<and>
         disabled m \<and> data m = Map.empty \<and> read a m = Inr m"
proof -
  from assms(1) probe_unsupported[of dev b] have p: "isl (probe b dev)" by blast
  from init_dormant[OF p] have d0: "dormant (init b nm dev os)" .
  from exec_dormant[OF d0 assms(2)] have d: "dormant m" .
  from d0 d show ?thesis by (simp add: dormant_def read_disabled)
qed

text \<open>
  The theorem at a \<^verbatim>\<open>cpu\<close> device, at an HPU that is not available, and at a
  \<^verbatim>\<open>cuda\<close> device whose \<^verbatim>\<open>memory_stats\<close> raises.
\<close>

theorem unsupported_device_disables_witness:
  "disabled (init working_backend ''MemMon'' \<lparr>dev_type = ''cpu'', dev_index = None\<rparr>
     \<lparr>memmon_poll_rate = 8\<rparr>) \<and>
   exec [CallMonitor, Tick, CallRead (snapshot 900 1000), CallStop (snapshot 900 1000)]
     (init working_backend ''MemMon'' \<lparr>dev_type = ''cpu'', dev_index = None\<rparr>
       \<lparr>memmon_poll_rate = 8\<rparr>) \<noteq> None \<and>
   data (the (exec [CallMonitor, Tick, CallRead (snapshot 900 1000), CallStop (snapshot 900 1000)]
     (init working_backend ''MemMon'' \<lparr>dev_type = ''cpu'', dev_index = None\<rparr>
       \<lparr>memmon_poll_rate = 8\<rparr>))) = Map.empty \<and>
   disabled (init (working_backend\<lparr>hpu_is_available := Inr False\<rparr>) ''MemMon''
     \<lparr>dev_type = ''hpu'', dev_index = None\<rparr> \<lparr>memmon_poll_rate = 8\<rparr>) \<and>
   disabled (init (working_backend\<lparr>cuda_memory_stats_raises := Some (DeviceError ''no driver'')\<rparr>)
     ''MemMon'' \<lparr>dev_type = ''cuda'', dev_index = Some 0\<rparr> \<lparr>memmon_poll_rate = 8\<rparr>)"
proof -
  let ?cpu = "\<lparr>dev_type = ''cpu'', dev_index = None\<rparr>"
  let ?hpu = "\<lparr>dev_type = ''hpu'', dev_index = None\<rparr>"
  let ?cuda = "\<lparr>dev_type = ''cuda'', dev_index = Some 0\<rparr>"
  let ?os = "\<lparr>memmon_poll_rate = 8\<rparr>"
  let ?tr = "[CallMonitor, Tick, CallRead (snapshot 900 1000), CallStop (snapshot 900 1000)]"
  let ?b2 = "working_backend\<lparr>hpu_is_available := Inr False\<rparr>"
  let ?b3 = "working_backend\<lparr>cuda_memory_stats_raises := Some (DeviceError ''no driver'')\<rparr>"
  have h1: "(dev_type ?cpu \<noteq> ''cuda'' \<and> dev_type ?cpu \<noteq> ''hpu'') \<or> isl (probe working_backend ?cpu)"
    by simp
  have "exec ?tr (init working_backend ''MemMon'' ?cpu ?os) \<noteq> None"
    by (simp add: model_defs)
  then obtain m where x: "exec ?tr (init working_backend ''MemMon'' ?cpu ?os) = Some m" by blast
  have h2: "(dev_type ?hpu \<noteq> ''cuda'' \<and> dev_type ?hpu \<noteq> ''hpu'') \<or> isl (probe ?b2 ?hpu)"
    by (simp add: probe_def working_backend_def)
  have x2: "exec [] (init ?b2 ''MemMon'' ?hpu ?os) = Some (init ?b2 ''MemMon'' ?hpu ?os)" by simp
  have h3: "(dev_type ?cuda \<noteq> ''cuda'' \<and> dev_type ?cuda \<noteq> ''hpu'') \<or> isl (probe ?b3 ?cuda)"
    by (simp add: probe_def working_backend_def)
  have x3: "exec [] (init ?b3 ''MemMon'' ?cuda ?os) = Some (init ?b3 ''MemMon'' ?cuda ?os)" by simp
  from unsupported_device_disables[OF h1 x] unsupported_device_disables[OF h2 x2]
    unsupported_device_disables[OF h3 x3] x
  show ?thesis by simp
qed

text \<open>
  C6 (amended). \<^verbatim>\<open>dump_debug()\<close> changes the monitor exactly as one \<^verbatim>\<open>read()\<close> does: the
  gate, the place of the thread, the disabled flag (so the state Disabled, Idle or
  Sampling) and \<^verbatim>\<open>min_free\<close> stay as they were; a disabled monitor is not changed at
  all; for a monitor that is not disabled the map is refreshed with the figures the
  device reports now.
\<close>

theorem dump_debug_effect:
  assumes "dump_debug a m = Inr (m', out)"
  shows "read a m = Inr m' \<and> state_of m' = state_of m \<and> run_flag m' = run_flag m \<and>
         pc m' = pc m \<and> disabled m' = disabled m \<and>
         peek (data m') ''min_free'' = peek (data m) ''min_free'' \<and>
         (disabled m \<longrightarrow> m' = m) \<and>
         (\<not> disabled m \<longrightarrow> data m' ''free'' = Some (fst (reported m a)) \<and>
                            data m' ''total'' = Some (snd (reported m a)))"
proof -
  from dump_debug_read[OF assms] have r: "read a m = Inr m'" by simp
  from read_frame[OF r] have fr: "run_flag m' = run_flag m" "pc m' = pc m"
    "disabled m' = disabled m" by simp_all
  then have st: "state_of m' = state_of m" by (simp add: state_of_def)
  have d: "m' = m" if "disabled m" using that r by (simp add: read_def)
  have w: "data m' ''free'' = Some (fst (reported m a)) \<and>
           data m' ''total'' = Some (snd (reported m a))" if "\<not> disabled m"
    using read_stores[OF that r] by simp
  from r fr st read_min_free[OF r] d w show ?thesis by blast
qed

text \<open>The theorem at a freshly constructed HPU monitor.\<close>

theorem dump_debug_effect_witness:
  "isl (dump_debug (snapshot 900 1000) (example_monitor ''hpu'' 8)) = False \<and>
   state_of (fst (projr (dump_debug (snapshot 900 1000) (example_monitor ''hpu'' 8)))) = Idle \<and>
   data (fst (projr (dump_debug (snapshot 900 1000) (example_monitor ''hpu'' 8)))) ''free'' = Some 900 \<and>
   peek (data (fst (projr (dump_debug (snapshot 900 1000) (example_monitor ''hpu'' 8))))) ''min_free'' = 0"
proof -
  obtain m' out where d: "dump_debug (snapshot 900 1000) (example_monitor ''hpu'' 8) = Inr (m', out)"
    by (simp add: model_defs)
  have e: "state_of (example_monitor ''hpu'' 8) = Idle \<and> \<not> disabled (example_monitor ''hpu'' 8) \<and>
    fst (reported (example_monitor ''hpu'' 8) (snapshot 900 1000)) = 900 \<and>
    peek (data (example_monitor ''hpu'' 8)) ''min_free'' = 0"
    by (simp add: model_defs)
  from dump_debug_effect[OF d] d e show ?thesis by simp
qed

text \<open>
  C6 as stated fails: \<^verbatim>\<open>dump_debug()\<close> on a freshly constructed monitor stores
  \<^verbatim>\<open>total = 1000\<close> in the map, which was empty.
\<close>

theorem dump_debug_effect_counterexample:
  "isl (dump_debug (snapshot 900 1000) (example_monitor ''hpu'' 8)) = False \<and>
   data (example_monitor ''hpu'' 8) ''total'' = None \<and>
   data (fst (projr (dump_debug (snapshot 900 1000) (example_monitor ''hpu'' 8)))) ''total'' = Some 1000 \<and>
   fst (projr (dump_debug (snapshot 900 1000) (example_monitor ''hpu'' 8))) \<noteq> example_monitor ''hpu'' 8"
proof -
  have a: "isl (dump_debug (snapshot 900 1000) (example_monitor ''hpu'' 8)) = False \<and>
   data (example_monitor ''hpu'' 8) ''total'' = None \<and>
   data (fst (projr (dump_debug (snapshot 900 1000) (example_monitor ''hpu'' 8)))) ''total'' = Some 1000"
    by (simp add: model_defs)
  then have "data (fst (projr (dump_debug (snapshot 900 1000) (example_monitor ''hpu'' 8)))) ''total'' \<noteq>
     data (example_monitor ''hpu'' 8) ''total''" by simp
  then have "fst (projr (dump_debug (snapshot 900 1000) (example_monitor ''hpu'' 8))) \<noteq>
     example_monitor ''hpu'' 8" by metis
  with a show ?thesis by simp
qed

text \<open>
  C7. A \<^verbatim>\<open>read()\<close> that returns, in any state of the monitor and of its thread, leaves
  the value of \<^verbatim>\<open>min_free\<close> as it was (a missing key reads as 0 before and holds 0
  after), and leaves the gate and the thread alone.
\<close>

theorem read_leaves_min_free:
  assumes "read a m = Inr m'"
  shows "peek (data m') ''min_free'' = peek (data m) ''min_free'' \<and>
         (\<forall>v. data m ''min_free'' = Some v \<longrightarrow> data m' ''min_free'' = Some v) \<and>
         run_flag m' = run_flag m \<and> pc m' = pc m"
  using read_min_free[OF assms] read_min_free_present[OF assms] read_frame[OF assms]
  by simp

text \<open>The theorem at a \<^verbatim>\<open>cuda\<close> monitor in the middle of sampling, \<^verbatim>\<open>min_free = 600\<close>.\<close>

theorem read_leaves_min_free_witness:
  "exec [CallMonitor, Tick, Tick, Tick, Tick, Query 800, Tick, Query 600]
     (example_monitor ''cuda'' 8) \<noteq> None \<and>
   state_of (the (exec [CallMonitor, Tick, Tick, Tick, Tick, Query 800, Tick, Query 600]
     (example_monitor ''cuda'' 8))) = Sampling \<and>
   data (the (exec [CallMonitor, Tick, Tick, Tick, Tick, Query 800, Tick, Query 600]
     (example_monitor ''cuda'' 8))) ''min_free'' = Some 600 \<and>
   isl (read (snapshot 900 1000)
     (the (exec [CallMonitor, Tick, Tick, Tick, Tick, Query 800, Tick, Query 600]
       (example_monitor ''cuda'' 8)))) = False \<and>
   data (projr (read (snapshot 900 1000)
     (the (exec [CallMonitor, Tick, Tick, Tick, Tick, Query 800, Tick, Query 600]
       (example_monitor ''cuda'' 8))))) ''min_free'' = Some 600"
proof -
  let ?tr = "[CallMonitor, Tick, Tick, Tick, Tick, Query 800, Tick, Query 600]"
  let ?m = "the (exec ?tr (example_monitor ''cuda'' 8))"
  have e: "exec ?tr (example_monitor ''cuda'' 8) \<noteq> None \<and> state_of ?m = Sampling \<and>
      data ?m ''min_free'' = Some 600 \<and> is_cuda ?m"
    by (simp add: model_defs)
  with read_returns[of ?m "snapshot 900 1000"]
  obtain m' where r: "read (snapshot 900 1000) ?m = Inr m'" by blast
  from read_leaves_min_free[OF r] e r show ?thesis by simp
qed

text \<open>
  C8 (amended). A second \<^verbatim>\<open>monitor()\<close> without a \<^verbatim>\<open>stop()\<close> since the first is a
  no-op when the polling rate is positive, whatever the thread and the caller did in
  between, and when it follows the first at once: the gate is still open and the monitor
  is unchanged.
\<close>

theorem monitor_again_while_open:
  assumes "exec evs (monitor m0) = Some m" and "\<forall>e\<in>set evs. \<not> is_stop e"
    and "0 < memmon_poll_rate (opts m0) \<or> evs = []"
  shows "run_flag m \<and> monitor m = m \<and> exec (evs @ [CallMonitor]) (monitor m0) = Some m"
proof -
  have g0: "run_flag (monitor m0) \<and> pc (monitor m0) \<noteq> Waiting" by (simp add: monitor_def)
  have g: "run_flag m \<and> pc m \<noteq> Waiting"
  proof (cases "evs = []")
    case True
    with assms(1) g0 show ?thesis by simp
  next
    case False
    with assms(3) have "0 < memmon_poll_rate (opts (monitor m0))" by (simp add: monitor_def)
    from exec_gate_open[OF this g0 assms(1,2)] show ?thesis .
  qed
  then have "monitor m = m" by (simp add: monitor_open)
  with g assms(1) show ?thesis by (simp add: exec_append)
qed

text \<open>The theorem in the middle of an episode with rate 8, and back to back with rate 0.\<close>

theorem monitor_again_while_open_witness:
  "exec [Tick, Tick, Tick, Tick, Query 800, Tick, Query 600] (monitor (example_monitor ''hpu'' 8))
     \<noteq> None \<and>
   monitor (the (exec [Tick, Tick, Tick, Tick, Query 800, Tick, Query 600]
     (monitor (example_monitor ''hpu'' 8)))) =
   the (exec [Tick, Tick, Tick, Tick, Query 800, Tick, Query 600]
     (monitor (example_monitor ''hpu'' 8))) \<and>
   monitor (monitor (example_monitor ''hpu'' 0)) = monitor (example_monitor ''hpu'' 0)"
proof -
  let ?tr = "[Tick, Tick, Tick, Tick, Query 800, Tick, Query 600]"
  have "exec ?tr (monitor (example_monitor ''hpu'' 8)) \<noteq> None" by (simp add: model_defs)
  then obtain m where x: "exec ?tr (monitor (example_monitor ''hpu'' 8)) = Some m" by blast
  have ns: "\<forall>e\<in>set ?tr. \<not> is_stop e" by simp
  have r: "0 < memmon_poll_rate (opts (example_monitor ''hpu'' 8)) \<or> ?tr = []"
    by (simp add: model_defs)
  have x0: "exec [] (monitor (example_monitor ''hpu'' 0)) = Some (monitor (example_monitor ''hpu'' 0))"
    by simp
  have ns0: "\<forall>e\<in>set []. \<not> is_stop e" by simp
  have r0: "0 < memmon_poll_rate (opts (example_monitor ''hpu'' 0)) \<or> ([]::event list) = []"
    by simp
  from monitor_again_while_open[OF x ns r] monitor_again_while_open[OF x0 ns0 r0] x
  show ?thesis by simp
qed

text \<open>
  C8 as stated fails with rate 0: the thread closes the gate by itself, so a second
  \<^verbatim>\<open>monitor()\<close> without any \<^verbatim>\<open>stop()\<close> opens it again, and the thread clears the map a
  second time (the \<^verbatim>\<open>total\<close> stored by a read in between is gone).
\<close>

theorem monitor_again_counterexample:
  "exec [CallMonitor, Tick, Tick, Tick, Tick, CallRead (snapshot 900 1000)]
     (example_monitor ''hpu'' 0) \<noteq> None \<and>
   data (the (exec [CallMonitor, Tick, Tick, Tick, Tick, CallRead (snapshot 900 1000)]
     (example_monitor ''hpu'' 0))) ''total'' = Some 1000 \<and>
   run_flag (the (exec [CallMonitor, Tick, Tick, Tick, Tick, CallRead (snapshot 900 1000)]
     (example_monitor ''hpu'' 0))) = False \<and>
   run_flag (monitor (the (exec [CallMonitor, Tick, Tick, Tick, Tick, CallRead (snapshot 900 1000)]
     (example_monitor ''hpu'' 0)))) = True \<and>
   exec [CallMonitor, Tick, Tick, Tick, Tick, CallRead (snapshot 900 1000), CallMonitor, Tick, Tick]
     (example_monitor ''hpu'' 0) \<noteq> None \<and>
   data (the (exec
     [CallMonitor, Tick, Tick, Tick, Tick, CallRead (snapshot 900 1000), CallMonitor, Tick, Tick]
     (example_monitor ''hpu'' 0))) ''total'' = None"
  by (simp add: model_defs)

text \<open>
  C9. For a monitor constructed not disabled, as long as the thread has taken no sample,
  every \<^verbatim>\<open>read()\<close> returns and leaves \<^verbatim>\<open>min_free = 0\<close> and \<^verbatim>\<open>system_peak\<close> equal to the
  total the device reports.
\<close>

theorem read_before_any_sample:
  assumes "\<not> disabled (init b nm dev os)" and "exec evs (init b nm dev os) = Some m"
    and "samples evs = []"
  shows "\<exists>m'. read a m = Inr m' \<and> data m' ''min_free'' = Some 0 \<and>
           data m' ''total'' = Some (snd (reported m a)) \<and>
           data m' ''system_peak'' = Some (snd (reported m a))"
proof -
  from exec_unsampled[OF init_unsampled assms(2,3)] have u: "unsampled m" .
  then have p: "peek (data m) ''min_free'' = 0" by (auto simp: unsampled_def peek_eq)
  from exec_frame[OF assms(2)] assms(1) have nd: "\<not> disabled m"
    and dv: "device m = device (init b nm dev os)" by simp_all
  from init_supported[OF assms(1)] dv have "is_cuda m \<or> is_hpu m"
    by (simp add: is_cuda_def is_hpu_def)
  with read_returns[of m a] obtain m' where r: "read a m = Inr m'" by blast
  from read_stores[OF nd r] p r show ?thesis by simp
qed

text \<open>The theorem at an HPU monitor whose thread has just cleared the map.\<close>

theorem read_before_any_sample_witness:
  "\<not> disabled (example_monitor ''hpu'' 8) \<and>
   exec [CallMonitor, Tick, Tick, Tick, CallRead (snapshot 700 1000)] (example_monitor ''hpu'' 8)
     \<noteq> None \<and>
   isl (read (snapshot 900 1000)
     (the (exec [CallMonitor, Tick, Tick, Tick, CallRead (snapshot 700 1000)]
       (example_monitor ''hpu'' 8)))) = False \<and>
   data (projr (read (snapshot 900 1000)
     (the (exec [CallMonitor, Tick, Tick, Tick, CallRead (snapshot 700 1000)]
       (example_monitor ''hpu'' 8))))) ''min_free'' = Some 0 \<and>
   data (projr (read (snapshot 900 1000)
     (the (exec [CallMonitor, Tick, Tick, Tick, CallRead (snapshot 700 1000)]
       (example_monitor ''hpu'' 8))))) ''system_peak'' = Some 1000"
proof -
  let ?tr = "[CallMonitor, Tick, Tick, Tick, CallRead (snapshot 700 1000)]"
  let ?dev = "\<lparr>dev_type = ''hpu'', dev_index = None\<rparr>"
  let ?os = "\<lparr>memmon_poll_rate = 8\<rparr>"
  have em: "example_monitor ''hpu'' 8 = init working_backend ''MemMon'' ?dev ?os"
    by (simp add: example_monitor_def)
  have nd: "\<not> disabled (init working_backend ''MemMon'' ?dev ?os)" by (simp add: model_defs)
  have "exec ?tr (init working_backend ''MemMon'' ?dev ?os) \<noteq> None" by (simp add: model_defs)
  then obtain m where x: "exec ?tr (init working_backend ''MemMon'' ?dev ?os) = Some m" by blast
  have s: "samples ?tr = []" by simp
  from exec_frame[OF x] have "snd (reported m (snapshot 900 1000)) = 1000"
    by (simp add: model_defs)
  with read_before_any_sample[OF nd x s, of "snapshot 900 1000"] nd x em show ?thesis by auto
qed

text \<open>
  C10. For a monitor on an \<^verbatim>\<open>hpu\<close> device that is not disabled, every \<^verbatim>\<open>read()\<close>
  returns and leaves \<^verbatim>\<open>reserved\<close> and \<^verbatim>\<open>reserved_peak\<close> equal: both hold the used memory
  the device reports.
\<close>

theorem hpu_reserved_equals_reserved_peak:
  assumes "\<not> disabled m" and "is_hpu m"
  shows "\<exists>m'. read a m = Inr m' \<and> data m' ''reserved'' = data m' ''reserved_peak'' \<and>
           data m' ''reserved'' = Some (hpu_used a)"
  using read_hpu_reserved[OF assms, of a] by auto

text \<open>The theorem at a freshly constructed HPU monitor.\<close>

theorem hpu_reserved_equals_reserved_peak_witness:
  "\<not> disabled (example_monitor ''hpu'' 8) \<and> is_hpu (example_monitor ''hpu'' 8) \<and>
   isl (read (snapshot 900 1000) (example_monitor ''hpu'' 8)) = False \<and>
   data (projr (read (snapshot 900 1000) (example_monitor ''hpu'' 8))) ''reserved'' = Some 100 \<and>
   data (projr (read (snapshot 900 1000) (example_monitor ''hpu'' 8))) ''reserved_peak'' = Some 100"
proof -
  have nd: "\<not> disabled (example_monitor ''hpu'' 8)" and hp: "is_hpu (example_monitor ''hpu'' 8)"
    by (simp_all add: model_defs)
  have u: "hpu_used (snapshot 900 1000) = 100" by (simp add: snapshot_def)
  from hpu_reserved_equals_reserved_peak[OF nd hp, of "snapshot 900 1000"] nd hp u
  show ?thesis by auto
qed

end
